theory Spec2Isabelle
  imports Complex_Main "HOL-Library.Sublist" "HOL-Library.Multiset" "HOL-Library.Log_Nat"
begin

text \<open>
  A model of the two parts of clipo that decide what happens to a user's files: the
  clipboard monitor, which recognises an edit in the clipboard text, checks the
  declared path against the project root and applies the edit
  (\<open>clipboardMonitor.ts\<close>), and the project detection with the ignore patterns of the
  detected types (\<open>projectDetection.ts\<close>, and \<open>mergeArrays\<close> of the configuration
  loader). Files, the console and the directory under detection are explicit values;
  what the source throws is returned as an error.
\<close>

section \<open>JavaScript strings\<close>

text \<open>
  A string is the list of its code units, and the model covers the text whose code
  units are below 256 (ASCII and Latin-1): \<open>CHR 0xA0\<close> is the no-break space U+00A0.
  The white space that \<open>String.prototype.trim\<close> removes and that the regular
  expression class \<open>\s\<close> matches is, in this range, tab, line feed, vertical tab, form
  feed, carriage return, space and no-break space.
\<close>

definition isWhiteSpace :: "char \<Rightarrow> bool" where
  "isWhiteSpace c \<longleftrightarrow>
     c \<in> {CHR 0x09, CHR 0x0A, CHR 0x0B, CHR 0x0C, CHR 0x0D, CHR 0x20, CHR 0xA0}"

definition trim :: "string \<Rightarrow> string" where
  "trim s = rev (dropWhile isWhiteSpace (rev (dropWhile isWhiteSpace s)))"

definition startsWith :: "string \<Rightarrow> string \<Rightarrow> bool" where
  "startsWith s p \<longleftrightarrow> prefix p s"

definition endsWith :: "string \<Rightarrow> string \<Rightarrow> bool" where
  "endsWith s p \<longleftrightarrow> suffix p s"

text \<open>\<open>s.indexOf(pat)\<close>: the position of the first occurrence, \<open>None\<close> for \<open>-1\<close>.\<close>

fun indexOf :: "string \<Rightarrow> string \<Rightarrow> nat option" where
  "indexOf [] pat = (if pat = [] then Some 0 else None)"
| "indexOf (c # s) pat =
     (if prefix pat (c # s) then Some 0 else map_option Suc (indexOf s pat))"

definition includes_str :: "string \<Rightarrow> string \<Rightarrow> bool" where
  "includes_str s pat \<longleftrightarrow> indexOf s pat \<noteq> None"

text \<open>
  \<open>s.substring(a, b)\<close>: both indices are clamped to the length of the string, and
  they are swapped when the first is larger than the second.
\<close>

definition substring :: "string \<Rightarrow> nat \<Rightarrow> nat \<Rightarrow> string" where
  "substring s a b =
     (let a' = min a (length s); b' = min b (length s);
          lo = min a' b'; hi = max a' b'
      in take (hi - lo) (drop lo s))"

text \<open>\<open>s.split(sep)\<close> for a one-character separator, and \<open>lines.join(sep)\<close>.\<close>

fun split :: "char \<Rightarrow> string \<Rightarrow> string list" where
  "split sep [] = [[]]"
| "split sep (c # s) =
     (if c = sep then [] # split sep s
      else (case split sep s of [] \<Rightarrow> [[c]] | l # ls \<Rightarrow> (c # l) # ls))"

fun join :: "string \<Rightarrow> string list \<Rightarrow> string" where
  "join sep [] = []"
| "join sep [l] = l"
| "join sep (l # m # ls) = l @ sep @ join sep (m # ls)"

text \<open>\<open>lines[0]\<close> of a split string; a split string always has a first line.\<close>

definition firstOf :: "string list \<Rightarrow> string" where
  "firstOf ls = (case ls of [] \<Rightarrow> [] | l # _ \<Rightarrow> l)"

text \<open>
  \<open>s.replace(pat, rep)\<close> with a string pattern replaces the first occurrence only, and
  the replacement string is a template: \<open>$$\<close> stands for a dollar sign, \<open>$&\<close> for the
  matched text, \<open>$`\<close> for the text before the match and \<open>$'\<close> for the text after it.
  A string pattern has no capture groups, so every other \<open>$\<close> is kept as it is.
\<close>

fun getSubstitution :: "string \<Rightarrow> string \<Rightarrow> string \<Rightarrow> string \<Rightarrow> string" where
  "getSubstitution matched pre post [] = []"
| "getSubstitution matched pre post (c # r) =
     (if c = CHR ''$'' then
        (case r of
           [] \<Rightarrow> [c]
         | d # r' \<Rightarrow>
             if d = CHR ''$'' then CHR ''$'' # getSubstitution matched pre post r'
             else if d = CHR ''&'' then matched @ getSubstitution matched pre post r'
             else if d = CHR 0x60 then pre @ getSubstitution matched pre post r'
             else if d = CHR 0x27 then post @ getSubstitution matched pre post r'
             else c # getSubstitution matched pre post r)
      else c # getSubstitution matched pre post r)"

definition replace :: "string \<Rightarrow> string \<Rightarrow> string \<Rightarrow> string" where
  "replace s pat rep =
     (case indexOf s pat of
        None \<Rightarrow> s
      | Some i \<Rightarrow>
          take i s
          @ getSubstitution pat (take i s) (drop (i + length pat) s) rep
          @ drop (i + length pat) s)"

section \<open>Clipboard monitor: recognising a pattern\<close>

text \<open>\<open>firstLine.replace(/^```/, '')\<close>: three leading backticks are removed.\<close>

definition stripFence :: "string \<Rightarrow> string" where
  "stripFence l = (if startsWith l ''```'' then drop 3 l else l)"

text \<open>\<open>content.split('\n')[0].trim()\<close>\<close>

definition firstLine :: "string \<Rightarrow> string" where
  "firstLine content = trim (firstOf (split CHR 0x0A content))"

definition isFileReplacementPattern :: "string \<Rightarrow> bool" where
  "isFileReplacementPattern content =
     (let l = firstLine content in
      if startsWith l ''//'' \<and> includes_str l ''/'' then True
      else if startsWith l ''```'' then
        (let afterTicks = trim (stripFence l) in
         if startsWith afterTicks ''//'' \<and> includes_str afterTicks ''/'' then True else False)
      else False)"

definition isSearchReplacePattern :: "string \<Rightarrow> bool" where
  "isSearchReplacePattern content \<longleftrightarrow>
     includes_str content ''------- SEARCH'' \<and> includes_str content ''=======''
     \<and> includes_str content ''+++++++ REPLACE''"

section \<open>The path library (POSIX)\<close>

text \<open>
  \<open>isAbsolute\<close>, \<open>normalize\<close> (here \<open>normalize_path\<close>), \<open>resolve\<close>, \<open>relative\<close> and
  \<open>dirname\<close> are imported from
  the Deno standard library; the model follows its POSIX implementation. The library
  walks over the characters of a path and cuts it at each \<open>/\<close>; here the path is split
  at \<open>/\<close> first and the same steps are taken segment by segment. The current working
  directory, which \<open>resolve\<close> reads when its arguments give no absolute path, is a
  parameter.
\<close>

definition isAbsolute :: "string \<Rightarrow> bool" where
  "isAbsolute p = (case p of [] \<Rightarrow> False | c # _ \<Rightarrow> c = CHR ''/'')"

text \<open>
  \<open>normalizeString\<close>: empty segments and \<open>.\<close> are dropped; \<open>..\<close> removes the segment
  before it, unless there is none or it is \<open>..\<close> itself, in which case \<open>..\<close> is kept
  when \<open>allowAboveRoot\<close> holds and dropped otherwise.
\<close>

fun normalizeSegments :: "bool \<Rightarrow> string list \<Rightarrow> string list \<Rightarrow> string list" where
  "normalizeSegments allowAboveRoot [] res = res"
| "normalizeSegments allowAboveRoot (s # ss) res =
     (if s = [] \<or> s = ''.'' then normalizeSegments allowAboveRoot ss res
      else if s = ''..'' then
        (if res \<noteq> [] \<and> last res \<noteq> ''..''
           then normalizeSegments allowAboveRoot ss (butlast res)
         else if allowAboveRoot
           then normalizeSegments allowAboveRoot ss (res @ [''..''])
         else normalizeSegments allowAboveRoot ss res)
      else normalizeSegments allowAboveRoot ss (res @ [s]))"

definition normalizeString :: "string \<Rightarrow> bool \<Rightarrow> string" where
  "normalizeString path allowAboveRoot =
     join ''/'' (normalizeSegments allowAboveRoot (split CHR ''/'' path) [])"

definition normalize_path :: "string \<Rightarrow> string" where
  "normalize_path path =
     (if path = [] then ''.''
      else
        (let isAbs = isAbsolute path;
             trailingSeparator = (last path = CHR ''/'');
             p = normalizeString path (\<not> isAbs);
             p1 = (if p = [] \<and> \<not> isAbs then ''.'' else p);
             p2 = (if p1 \<noteq> [] \<and> trailingSeparator then p1 @ ''/'' else p1)
         in if isAbs then CHR ''/'' # p2 else p2))"

text \<open>
  \<open>resolve\<close> goes through its arguments from the last to the first, and then to the
  working directory, until the collected path is absolute.
\<close>

fun resolveLoop :: "string list \<Rightarrow> string \<Rightarrow> bool \<Rightarrow> string \<times> bool" where
  "resolveLoop [] resolvedPath resolvedAbsolute = (resolvedPath, resolvedAbsolute)"
| "resolveLoop (p # ps) resolvedPath resolvedAbsolute =
     (if resolvedAbsolute then (resolvedPath, resolvedAbsolute)
      else if p = [] then resolveLoop ps resolvedPath resolvedAbsolute
      else resolveLoop ps (p @ ''/'' @ resolvedPath) (isAbsolute p))"

definition resolve :: "string \<Rightarrow> string list \<Rightarrow> string" where
  "resolve cwd pathSegments =
     (case resolveLoop (rev pathSegments @ [cwd]) [] False of
        (resolvedPath, resolvedAbsolute) \<Rightarrow>
          (let p = normalizeString resolvedPath (\<not> resolvedAbsolute) in
           if resolvedAbsolute then (if p \<noteq> [] then CHR ''/'' # p else ''/'')
           else if p \<noteq> [] then p else ''.''))"

fun dropCommon :: "string list \<Rightarrow> string list \<Rightarrow> string list \<times> string list" where
  "dropCommon (x # xs) (y # ys) = (if x = y then dropCommon xs ys else (x # xs, y # ys))"
| "dropCommon xs ys = (xs, ys)"

text \<open>
  \<open>relative\<close> resolves both paths, returns the empty string when they are equal, and
  otherwise climbs with one \<open>..\<close> for each segment of \<open>from\<close> below the common
  directory and then descends along the rest of \<open>to\<close>.
\<close>

definition relative :: "string \<Rightarrow> string \<Rightarrow> string \<Rightarrow> string" where
  "relative cwd from to =
     (let f = resolve cwd [from]; t = resolve cwd [to] in
      if f = t then []
      else
        (case dropCommon (filter (\<lambda>s. s \<noteq> []) (split CHR ''/'' f))
                         (filter (\<lambda>s. s \<noteq> []) (split CHR ''/'' t)) of
           (up, down) \<Rightarrow> join ''/'' (replicate (length up) ''..'' @ down)))"

definition dirname :: "string \<Rightarrow> string" where
  "dirname path =
     (case path of
        [] \<Rightarrow> ''.''
      | c # cs \<Rightarrow>
          (let r = dropWhile (\<lambda>d. d \<noteq> CHR ''/'') (dropWhile (\<lambda>d. d = CHR ''/'') (rev cs)) in
           if r = [] then (if c = CHR ''/'' then ''/'' else ''.'')
           else c # rev (dropWhile (\<lambda>d. d = CHR ''/'') (tl r))))"

section \<open>Clipboard monitor: files, console and state\<close>

text \<open>What a rejected file operation, or a failed \<open>JSON.parse\<close>, throws.\<close>

datatype io_error =
  NotFound | PermissionDenied | AlreadyExists | NotADirectory | IsADirectory | SyntaxError

datatype fs_op = ReadTextFile string | WriteTextFile string string | Mkdir string

text \<open>One value for each message the monitor prints; time stamps are left out.\<close>

datatype log_msg =
    NoValidFilePath
  | BaseDirNotSet
  | BlockedWriteAttempt string string
  | ProcessingSearchReplace string
  | InvalidSearchReplaceFormat
  | EmptySearchPattern
  | SearchPatternNotFound string
  | SearchPatternPreview string
  | CodeSectionReplaced string
  | CouldNotReadWrite string io_error
  | ProcessingCompleteFileReplacement string
  | ContentSize nat
  | FileUpdated string
  | ErrorWritingFile string io_error
  | ErrorCheckingClipboard string

text \<open>
  The world the monitor acts on: the text files by path, the directories, the paths on
  which a file operation is refused, the file operations attempted so far and the
  console output. The monitor names every file by an absolute, normalised path, and a
  path stands for the file or directory it is written as.
\<close>

record world =
  fs_files :: "string \<Rightarrow> string option"
  fs_dirs :: "string \<Rightarrow> bool"
  fs_denied :: "string \<Rightarrow> bool"
  fs_ops :: "fs_op list"
  console :: "log_msg list"

definition consoleLog :: "log_msg \<Rightarrow> world \<Rightarrow> world" where
  "consoleLog m w = w\<lparr>console := console w @ [m]\<rparr>"

text \<open>The directories above an absolute path, from the root \<open>/\<close> down to its parent.\<close>

definition parents :: "string \<Rightarrow> string list" where
  "parents p =
     (let segs = filter (\<lambda>s. s \<noteq> []) (split CHR ''/'' p)
      in map (\<lambda>k. CHR ''/'' # join ''/'' (take k segs)) [0..<length segs])"

definition isDir :: "world \<Rightarrow> string \<Rightarrow> bool" where
  "isDir w q \<longleftrightarrow> q = ''/'' \<or> fs_dirs w q"

definition fileAbove :: "world \<Rightarrow> string \<Rightarrow> bool" where
  "fileAbove w p \<longleftrightarrow> list_ex (\<lambda>q. fs_files w q \<noteq> None) (parents p)"

text \<open>
  \<open>Deno.readTextFile\<close> fails on a refused path, on a directory and on a path that
  names nothing.
\<close>

definition readTextFile :: "string \<Rightarrow> world \<Rightarrow> (io_error + string) \<times> world" where
  "readTextFile p w =
     ((if fs_denied w p then Inl PermissionDenied
       else (case fs_files w p of
               Some c \<Rightarrow> Inr c
             | None \<Rightarrow> if isDir w p then Inl IsADirectory else Inl NotFound)),
      w\<lparr>fs_ops := fs_ops w @ [ReadTextFile p]\<rparr>)"

text \<open>
  \<open>Deno.writeTextFile\<close> creates or overwrites the file. It fails on a refused path, on
  a directory, and when the directory that is to hold the file does not exist or a
  regular file stands in its place.
\<close>

definition writeTextFile :: "string \<Rightarrow> string \<Rightarrow> world \<Rightarrow> (io_error + unit) \<times> world" where
  "writeTextFile p c w =
     (let w' = w\<lparr>fs_ops := fs_ops w @ [WriteTextFile p c]\<rparr> in
      if fs_denied w p then (Inl PermissionDenied, w')
      else if isDir w p then (Inl IsADirectory, w')
      else if fileAbove w p then (Inl NotADirectory, w')
      else if list_ex (\<lambda>q. \<not> isDir w q) (parents p) then (Inl NotFound, w')
      else (Inr (), w'\<lparr>fs_files := (fs_files w)(p \<mapsto> c)\<rparr>))"

text \<open>
  \<open>Deno.mkdir(p, { recursive: true })\<close> creates the directory and the missing
  directories above it, and succeeds on a directory that exists. It fails on a
  refused path and when the path, or a path above it, is a regular file.
\<close>

definition mkdir :: "string \<Rightarrow> world \<Rightarrow> (io_error + unit) \<times> world" where
  "mkdir p w =
     (let w' = w\<lparr>fs_ops := fs_ops w @ [Mkdir p]\<rparr> in
      if fs_denied w p then (Inl PermissionDenied, w')
      else if fs_files w p \<noteq> None then (Inl AlreadyExists, w')
      else if fileAbove w p then (Inl NotADirectory, w')
      else (Inr (), w'\<lparr>fs_dirs := (\<lambda>q. fs_dirs w q \<or> q = p \<or> q \<in> set (parents p))\<rparr>))"

text \<open>
  The fields of the monitor that the clipboard handlers read and write. The base
  directory is \<open>None\<close> for \<open>null\<close>; the handlers treat the empty string like \<open>null\<close>.
\<close>

record monitor =
  verbose :: bool
  lastClipboardContent :: string
  baseProjectDirAbs :: "string option"

datatype clipboard_failure = ClipboardError string | OtherFailure string

definition failureMessage :: "clipboard_failure \<Rightarrow> string" where
  "failureMessage e = (case e of ClipboardError m \<Rightarrow> m | OtherFailure m \<Rightarrow> m)"

definition isClipboardError :: "clipboard_failure \<Rightarrow> bool" where
  "isClipboardError e = (case e of ClipboardError _ \<Rightarrow> True | OtherFailure _ \<Rightarrow> False)"

section \<open>Clipboard monitor: applying an edit\<close>

definition isPathSafe :: "string \<Rightarrow> string \<Rightarrow> string \<Rightarrow> bool" where
  "isPathSafe cwd baseDir targetPath =
     (let rel = relative cwd baseDir targetPath in
      rel \<noteq> [] \<and> \<not> startsWith rel ''..'' \<and> \<not> isAbsolute rel)"

record parsed =
  filePath :: string
  fileContent :: string
  isFence :: bool

definition parseFileContent :: "string \<Rightarrow> parsed" where
  "parseFileContent content =
     (let lines = split CHR 0x0A content;
          l0 = firstLine content;
          fence = startsWith l0 ''```'';
          l = (if fence then trim (stripFence l0) else l0);
          path = (if startsWith l ''//''
                  then trim (dropWhile isWhiteSpace (drop 2 l)) else []);
          body = join [CHR 0x0A] (drop 1 lines);
          contentLines = split CHR 0x0A body
      in \<lparr>filePath = path,
          fileContent =
            (if fence \<and> contentLines \<noteq> [] \<and> trim (last contentLines) = ''```''
             then join [CHR 0x0A] (butlast contentLines) else body),
          isFence = fence\<rparr>)"

definition searchPreview :: "string \<Rightarrow> string" where
  "searchPreview s =
     map (\<lambda>c. if c = CHR 0x0A then CHR '' '' else c) (substring s 0 50)
     @ (if length s > 50 then ''...'' else [])"

definition processSearchReplace :: "monitor \<Rightarrow> string \<Rightarrow> string \<Rightarrow> world \<Rightarrow> world" where
  "processSearchReplace m path content w0 =
     (let w = consoleLog (ProcessingSearchReplace path) w0 in
      case (indexOf content ''------- SEARCH'', indexOf content ''======='',
            indexOf content ''+++++++ REPLACE'') of
        (Some searchStart, Some separator, Some replaceEnd) \<Rightarrow>
          (let searchContent =
                 trim (substring content (searchStart + length ''------- SEARCH'') separator);
               replaceContent =
                 trim (substring content (separator + length ''======='') replaceEnd)
           in if searchContent = [] then consoleLog EmptySearchPattern w
              else
                (case readTextFile path w of
                   (Inl e, w1) \<Rightarrow> consoleLog (CouldNotReadWrite path e) w1
                 | (Inr originalContent, w1) \<Rightarrow>
                     if \<not> includes_str originalContent searchContent then
                       (let w2 = consoleLog (SearchPatternNotFound path) w1 in
                        if verbose m
                        then consoleLog (SearchPatternPreview (searchPreview searchContent)) w2
                        else w2)
                     else
                       (case writeTextFile path
                               (replace originalContent searchContent replaceContent) w1 of
                          (Inl e, w2) \<Rightarrow> consoleLog (CouldNotReadWrite path e) w2
                        | (Inr _, w2) \<Rightarrow> consoleLog (CodeSectionReplaced path) w2)))
      | _ \<Rightarrow> consoleLog InvalidSearchReplaceFormat w)"

definition processCompleteFileReplacement ::
    "monitor \<Rightarrow> string \<Rightarrow> string \<Rightarrow> world \<Rightarrow> world" where
  "processCompleteFileReplacement m targetPathAbs content w0 =
     (let w = consoleLog (ProcessingCompleteFileReplacement targetPathAbs) w0;
          w' = (if verbose m then consoleLog (ContentSize (length content)) w else w)
      in case mkdir (dirname targetPathAbs) w' of
           (Inl e, w1) \<Rightarrow> consoleLog (ErrorWritingFile targetPathAbs e) w1
         | (Inr _, w1) \<Rightarrow>
             (case writeTextFile targetPathAbs content w1 of
                (Inl e, w2) \<Rightarrow> consoleLog (ErrorWritingFile targetPathAbs e) w2
              | (Inr _, w2) \<Rightarrow> consoleLog (FileUpdated targetPathAbs) w2))"

text \<open>The absolute, normalised target of a declared path.\<close>

definition resolveTarget :: "string \<Rightarrow> string \<Rightarrow> string \<Rightarrow> string" where
  "resolveTarget cwd base path =
     normalize_path (if isAbsolute path then path else resolve cwd [base, path])"

text \<open>
  Every call that may fail is handled where it is made, so the \<open>catch\<close> around the
  body of \<open>processClipboardContent\<close> is never entered and has no branch here.
\<close>

definition processClipboardContent :: "string \<Rightarrow> monitor \<Rightarrow> string \<Rightarrow> world \<Rightarrow> world" where
  "processClipboardContent cwd m content w =
     (let path = filePath (parseFileContent content) in
      if path = [] then (if verbose m then consoleLog NoValidFilePath w else w)
      else
        (case baseProjectDirAbs m of
           None \<Rightarrow> consoleLog BaseDirNotSet w
         | Some base \<Rightarrow>
             if base = [] then consoleLog BaseDirNotSet w
             else
               (let targetPathAbs = resolveTarget cwd base path in
                if \<not> isPathSafe cwd base targetPathAbs
                  then consoleLog (BlockedWriteAttempt base targetPathAbs) w
                else if isSearchReplacePattern content
                  then processSearchReplace m targetPathAbs content w
                else processCompleteFileReplacement m targetPathAbs
                       (fileContent (parseFileContent content)) w)))"

definition checkClipboard ::
    "string \<Rightarrow> clipboard_failure + string \<Rightarrow> monitor \<times> world \<Rightarrow> monitor \<times> world" where
  "checkClipboard cwd clipboard mw =
     (case mw of (m, w) \<Rightarrow>
        (case clipboard of
           Inl e \<Rightarrow>
             (if verbose m \<and> (\<not> isClipboardError e
                    \<or> \<not> includes_str (failureMessage e) ''No text found on clipboard'')
              then (m, consoleLog (ErrorCheckingClipboard (failureMessage e)) w)
              else (m, w))
         | Inr clipboardContent \<Rightarrow>
             if clipboardContent = lastClipboardContent m \<or> trim clipboardContent = []
             then (m, w)
             else
               (let m' = m\<lparr>lastClipboardContent := clipboardContent\<rparr> in
                if isFileReplacementPattern clipboardContent
                then (m', processClipboardContent cwd m' clipboardContent w)
                else (m', w))))"

section \<open>Project detection: rules and ignore patterns\<close>

record ProjectDetectionRule =
  rule_name :: string
  priority :: int
  rule_files :: "string list"
  rule_folders :: "string list"
  rule_patterns :: "string list"

record DefaultIgnorePattern =
  files :: "string list"
  folders :: "string list"
  extensions :: "string list"

definition mkRule ::
    "string \<Rightarrow> int \<Rightarrow> string list \<Rightarrow> string list \<Rightarrow> string list \<Rightarrow> ProjectDetectionRule" where
  "mkRule n p fs ds ps =
     \<lparr>rule_name = n, priority = p, rule_files = fs, rule_folders = ds, rule_patterns = ps\<rparr>"

definition PROJECT_DETECTION_RULES :: "ProjectDetectionRule list" where
  "PROJECT_DETECTION_RULES =
   [mkRule ''Next.js'' 10 [''next.config.js'', ''next.config.ts'', ''next.config.mjs'']
      [''.next''] [''pages/'', ''app/'', ''components/''],
    mkRule ''Vue.js'' 9
      [''vue.config.js'', ''vite.config.js'', ''nuxt.config.js'', ''nuxt.config.ts'']
      [''.nuxt'', ''dist''] [''*.vue''],
    mkRule ''React'' 8 [''package.json''] []
      [''*.jsx'', ''*.tsx'', ''components/'', ''pages/'', ''app/''],
    mkRule ''Deno'' 10 [''deno.json'', ''deno.jsonc'', ''import_map.json''] []
      [''deps.ts'', ''mod.ts'', ''main.ts''],
    mkRule ''Node.js'' 8
      [''package.json'', ''package-lock.json'', ''yarn.lock'', ''pnpm-lock.yaml'']
      [''node_modules''] [],
    mkRule ''Python'' 7
      [''requirements.txt'', ''setup.py'', ''pyproject.toml'', ''Pipfile'', ''poetry.lock'']
      [''__pycache__'', ''venv'', ''.venv'', ''env'', ''.env''] [''*.py''],
    mkRule ''Rust'' 7 [''Cargo.toml'', ''Cargo.lock''] [''target''] [''*.rs''],
    mkRule ''Go'' 7 [''go.mod'', ''go.sum''] [''vendor''] [''*.go''],
    mkRule ''Arduino'' 6 [''*.ino''] [''libraries'', ''hardware''] [''*.ino''],
    mkRule ''ESP-IDF'' 8 [''CMakeLists.txt'', ''sdkconfig'', ''idf_component.yml'']
      [''build'', ''managed_components''] [''main/'', ''components/''],
    mkRule ''C/C++'' 5 [''Makefile'', ''CMakeLists.txt'', ''configure.ac'']
      [''build'', ''obj''] [''*.c'', ''*.cpp'', ''*.cc'', ''*.cxx'', ''*.h'', ''*.hpp''],
    mkRule ''Java'' 6 [''pom.xml'', ''build.gradle'', ''gradle.properties'']
      [''target'', ''build'', ''.gradle''] [''*.java''],
    mkRule ''C#/.NET'' 6 [''*.csproj'', ''*.sln'', ''project.json'', ''packages.config'']
      [''bin'', ''obj'', ''packages''] [''*.cs''],
    mkRule ''PHP'' 5 [''composer.json'', ''composer.lock''] [''vendor''] [''*.php''],
    mkRule ''Ruby'' 5 [''Gemfile'', ''Gemfile.lock'', ''Rakefile''] [''vendor/bundle'']
      [''*.rb''],
    mkRule ''Swift'' 6 [''Package.swift'', ''*.xcodeproj'', ''*.xcworkspace'']
      [''.build'', ''DerivedData''] [''*.swift''],
    mkRule ''Kotlin'' 6 [''build.gradle.kts'', ''settings.gradle.kts'']
      [''build'', ''.gradle''] [''*.kt'', ''*.kts'']]"

definition mkIgnore :: "string list \<Rightarrow> string list \<Rightarrow> string list \<Rightarrow> DefaultIgnorePattern" where
  "mkIgnore fs ds es = \<lparr>files = fs, folders = ds, extensions = es\<rparr>"

definition DEFAULT_IGNORE_TABLE :: "(string \<times> DefaultIgnorePattern) list" where
  "DEFAULT_IGNORE_TABLE =
   [(''Next.js'', mkIgnore
       [''.env.local'', ''.env.development.local'', ''.env.test.local'',
        ''.env.production.local'']
       [''.next'', ''out'', ''dist'', ''node_modules'', ''.vercel'', ''.netlify'']
       [''.log'', ''.lock'']),
    (''Vue.js'', mkIgnore [''.env.local'', ''.env.*.local'']
       [''dist'', ''node_modules'', ''.nuxt'', ''.output'', ''.cache'', ''.temp'']
       [''.log'', ''.lock'']),
    (''React'', mkIgnore
       [''.env.local'', ''.env.development.local'', ''.env.test.local'',
        ''.env.production.local'']
       [''build'', ''dist'', ''node_modules'', ''.cache''] [''.log'', ''.lock'']),
    (''Deno'', mkIgnore [''deno.lock'', ''.env''] [''.deno'', ''vendor''] [''.log'', ''.cache'']),
    (''Node.js'', mkIgnore
       [''.env'', ''.env.local'', ''.env.*.local'', ''npm-debug.log*'', ''yarn-debug.log*'',
        ''yarn-error.log*'']
       [''node_modules'', ''dist'', ''build'', ''.nyc_output'', ''coverage'', ''.cache'']
       [''.log'', ''.lock'', ''.tgz'', ''.tar.gz'']),
    (''Python'', mkIgnore
       [''.env'', ''*.pyc'', ''*.pyo'', ''*.pyd'', ''.Python'', ''pip-log.txt'',
        ''pip-delete-this-directory.txt'']
       [''__pycache__'', ''*.egg-info'', ''dist'', ''build'', ''.pytest_cache'', ''.coverage'',
        ''.mypy_cache'', ''venv'', ''.venv'', ''env'', ''.env'', ''ENV'', ''env.bak'',
        ''venv.bak'']
       [''.pyc'', ''.pyo'', ''.pyd'', ''.so'', ''.egg'', ''.whl'']),
    (''Rust'', mkIgnore [''Cargo.lock''] [''target'', ''.cargo'']
       [''.rlib'', ''.rmeta'', ''.crate'']),
    (''Go'', mkIgnore [''go.sum''] [''vendor'', ''bin'', ''pkg'']
       [''.exe'', ''.test'', ''.prof'']),
    (''Arduino'', mkIgnore [''*.hex'', ''*.bin'', ''*.elf''] [''build'', ''.vscode'']
       [''.hex'', ''.bin'', ''.elf'', ''.map'', ''.lst'']),
    (''ESP-IDF'', mkIgnore [''sdkconfig.old'', ''*.bin'', ''*.elf'', ''*.map'']
       [''build'', ''managed_components'', ''.espressif'']
       [''.bin'', ''.elf'', ''.map'', ''.hex'']),
    (''C/C++'', mkIgnore
       [''*.o'', ''*.obj'', ''*.exe'', ''*.dll'', ''*.so'', ''*.dylib'', ''core'', ''a.out'']
       [''build'', ''bin'', ''obj'', ''.vs'', ''Debug'', ''Release'']
       [''.o'', ''.obj'', ''.exe'', ''.dll'', ''.so'', ''.dylib'', ''.a'', ''.lib'', ''.pdb'',
        ''.ilk'', ''.exp'']),
    (''Java'', mkIgnore [''*.class'', ''*.jar'', ''*.war'', ''*.ear'', ''hs_err_pid*'']
       [''target'', ''build'', ''.gradle'', ''.mvn'', ''bin'']
       [''.class'', ''.jar'', ''.war'', ''.ear'']),
    (''C#/.NET'', mkIgnore [''*.exe'', ''*.dll'', ''*.pdb'', ''*.cache'']
       [''bin'', ''obj'', ''packages'', ''.vs'', ''.vscode'', ''TestResults'']
       [''.exe'', ''.dll'', ''.pdb'', ''.cache'', ''.user'', ''.suo'']),
    (''PHP'', mkIgnore [''.env'', ''composer.phar'']
       [''vendor'', ''storage/logs'', ''bootstrap/cache''] [''.log'']),
    (''Ruby'', mkIgnore [''.env'', ''*.gem'', ''.bundle'']
       [''vendor/bundle'', ''.bundle'', ''log'', ''tmp''] [''.gem'', ''.rbc'']),
    (''Swift'', mkIgnore [''*.xcuserstate'', ''*.xcuserdatad'']
       [''.build'', ''DerivedData'', ''xcuserdata'', ''.swiftpm'']
       [''.xcuserstate'', ''.xcuserdatad'']),
    (''Kotlin'', mkIgnore [''*.class'', ''*.jar'', ''*.war'', ''*.ear'']
       [''build'', ''.gradle'', ''bin''] [''.class'', ''.jar'', ''.war'', ''.ear''])]"

text \<open>
  \<open>DEFAULT_IGNORE_PATTERNS[projectType]\<close>: the entry registered under the name, if any.
  Project types are names of detection rules; names that every JavaScript object
  inherits (such as \<open>constructor\<close>) are not project types and are not modelled.
\<close>

definition DEFAULT_IGNORE_PATTERNS :: "string \<Rightarrow> DefaultIgnorePattern option" where
  "DEFAULT_IGNORE_PATTERNS = map_of DEFAULT_IGNORE_TABLE"

definition COMMON_IGNORE_PATTERNS :: DefaultIgnorePattern where
  "COMMON_IGNORE_PATTERNS =
     mkIgnore [''.DS_Store'', ''Thumbs.db'', ''desktop.ini'', ''*.swp'', ''*.swo'', ''*~'']
       [''.git'', ''.svn'', ''.hg'', ''.idea'', ''.vscode'', ''*.tmp'', ''tmp'', ''temp'']
       [''.tmp'', ''.temp'', ''.bak'', ''.backup'', ''.old'']"

section \<open>Ignore patterns of the detected project types\<close>

text \<open>
  \<open>[...new Set(xs)]\<close>: the elements are inserted one by one, an element that is already
  in the set is skipped, and the set lists its elements in insertion order.
\<close>

fun setInsertAll :: "'a list \<Rightarrow> 'a list \<Rightarrow> 'a list" where
  "setInsertAll seen [] = seen"
| "setInsertAll seen (x # xs) = setInsertAll (if x \<in> set seen then seen else seen @ [x]) xs"

definition uniq :: "'a list \<Rightarrow> 'a list" where
  "uniq xs = setInsertAll [] xs"

fun mergeTypes :: "string list \<Rightarrow> DefaultIgnorePattern \<Rightarrow> DefaultIgnorePattern" where
  "mergeTypes [] combined = combined"
| "mergeTypes (projectType # rest) combined =
     mergeTypes rest
       (case DEFAULT_IGNORE_PATTERNS projectType of
          None \<Rightarrow> combined
        | Some patterns \<Rightarrow>
            \<lparr>files = files combined @ files patterns,
             folders = folders combined @ folders patterns,
             extensions = extensions combined @ extensions patterns\<rparr>)"

definition getDefaultIgnorePatterns :: "string list \<Rightarrow> DefaultIgnorePattern" where
  "getDefaultIgnorePatterns projectTypes =
     (let combined = mergeTypes projectTypes COMMON_IGNORE_PATTERNS in
      \<lparr>files = uniq (files combined),
       folders = uniq (folders combined),
       extensions = uniq (extensions combined)\<rparr>)"

text \<open>
  \<open>mergeArrays\<close> of the configuration loader, which merges each list of the user's
  configuration (possibly undefined) with the defaults of the detected types.
\<close>

definition mergeArrays :: "string list option \<Rightarrow> string list \<Rightarrow> string list" where
  "mergeArrays existing defaults =
     (case existing of
        None \<Rightarrow> defaults
      | Some ex \<Rightarrow> if ex = [] then defaults else uniq (ex @ defaults))"

section \<open>Project detection: the directory and the regular expressions\<close>

datatype entry_kind = File | Directory | Symlink

record dirEntry =
  name :: string
  kind :: entry_kind

definition isFile :: "dirEntry \<Rightarrow> bool" where
  "isFile e \<longleftrightarrow> kind e = File"

definition isDirectory :: "dirEntry \<Rightarrow> bool" where
  "isDirectory e \<longleftrightarrow> kind e = Directory"

text \<open>
  The directory under detection, as the scan observes it. \<open>existsAt n\<close> is the outcome
  of \<open>exists(join(dirPath, n))\<close>; \<open>readDir p\<close> is the outcome of listing the directory
  reached from \<open>dirPath\<close> along the names \<open>p\<close> (a listing that fails part-way fails as
  a whole, since every caller discards what was read before the failure);
  \<open>packageJsonHasReact\<close> is the outcome of reading and parsing \<open>package.json\<close> and
  looking up \<open>react\<close> in its dependencies. Each of them may throw.
\<close>

record directory =
  existsAt :: "string \<Rightarrow> io_error + bool"
  readDir :: "string list \<Rightarrow> io_error + dirEntry list"
  packageJsonHasReact :: "io_error + bool"

text \<open>
  The regular expressions built from the globs of a rule. Of the regular expression
  syntax the model knows a literal character, \<open>.\<close> (any character but a line break),
  \<open>[^.]*\<close> and \<open>.*\<close>; a glob with any other special character is not modelled, and
  the rule table has none.
\<close>

datatype atom = Lit char | AnyChar | NonDots | Anything

fun matchAll :: "atom list \<Rightarrow> string \<Rightarrow> bool" where
  "matchAll [] s = (s = [])"
| "matchAll (Lit c # as) s = (case s of [] \<Rightarrow> False | d # t \<Rightarrow> d = c \<and> matchAll as t)"
| "matchAll (AnyChar # as) s =
     (case s of [] \<Rightarrow> False | d # t \<Rightarrow> d \<noteq> CHR 0x0A \<and> d \<noteq> CHR 0x0D \<and> matchAll as t)"
| "matchAll (NonDots # as) s =
     (matchAll as s \<or>
      (case s of [] \<Rightarrow> False | d # t \<Rightarrow> d \<noteq> CHR ''.'' \<and> matchAll (NonDots # as) t))"
| "matchAll (Anything # as) s =
     (matchAll as s \<or>
      (case s of [] \<Rightarrow> False
       | d # t \<Rightarrow> d \<noteq> CHR 0x0A \<and> d \<noteq> CHR 0x0D \<and> matchAll (Anything # as) t))"

definition regexChars :: "string \<Rightarrow> atom list" where
  "regexChars s = map (\<lambda>c. if c = CHR ''.'' then AnyChar else Lit c) s"

text \<open>\<open>glob.replace('*', star)\<close> replaces the first \<open>*\<close> only.\<close>

definition replaceStar :: "atom \<Rightarrow> string \<Rightarrow> atom list" where
  "replaceStar star glob =
     regexChars (takeWhile (\<lambda>c. c \<noteq> CHR ''*'') glob)
     @ (case dropWhile (\<lambda>c. c \<noteq> CHR ''*'') glob of
          [] \<Rightarrow> []
        | _ # rest \<Rightarrow> star # regexChars rest)"

text \<open>\<open>new RegExp(`\\.${ext}$`).test(f)\<close>: some suffix of \<open>f\<close> matches.\<close>

definition extensionTest :: "string \<Rightarrow> string \<Rightarrow> bool" where
  "extensionTest ext f = list_ex (matchAll (Lit CHR ''.'' # regexChars ext)) (suffixes f)"

definition fileGlobTest :: "string \<Rightarrow> string \<Rightarrow> bool" where
  "fileGlobTest glob f =
     (if startsWith glob ''*.'' then extensionTest (drop 2 glob) f
      else matchAll (replaceStar NonDots glob) f)"

definition patternGlobTest :: "string \<Rightarrow> string \<Rightarrow> bool" where
  "patternGlobTest glob f =
     (if startsWith glob ''*.'' then extensionTest (drop 2 glob) f
      else list_ex (\<lambda>t. list_ex (matchAll (replaceStar Anything glob)) (prefixes t))
             (suffixes f))"

definition toLowerCase :: "char \<Rightarrow> char" where
  "toLowerCase c =
     (if 65 \<le> (of_char c :: nat) \<and> (of_char c :: nat) \<le> 90
      then char_of (of_char c + 32 :: nat) else c)"

text \<open>\<open>/\.(c|cpp|cc|cxx|c\+\+)$/i.test(f)\<close>\<close>

definition isCppSource :: "string \<Rightarrow> bool" where
  "isCppSource f =
     list_ex (\<lambda>e. endsWith (map toLowerCase f) (CHR ''.'' # e))
       [''c'', ''cpp'', ''cc'', ''cxx'', ''c++'']"

section \<open>Project detection: scoring a rule\<close>

record tally =
  confidence :: int
  matchCount :: nat
  totalChecks :: nat

definition addCheck :: "tally \<Rightarrow> tally" where
  "addCheck t = t\<lparr>totalChecks := totalChecks t + 1\<rparr>"

definition addMatch :: "int \<Rightarrow> tally \<Rightarrow> tally" where
  "addMatch weight t = t\<lparr>confidence := confidence t + weight, matchCount := matchCount t + 1\<rparr>"

text \<open>The names of the files at the top level of the directory.\<close>

definition topLevelFiles :: "directory \<Rightarrow> io_error + string list" where
  "topLevelFiles d =
     (case readDir d [] of Inl e \<Rightarrow> Inl e | Inr es \<Rightarrow> Inr (map name (filter isFile es)))"

text \<open>
  One file indicator of a rule. A failed listing is caught and adds nothing; a failed
  read of \<open>package.json\<close> is caught and falls back to the weight of an existing file;
  \<open>exists\<close> is called outside every \<open>try\<close>, so what it throws leaves the function.
\<close>

definition checkFile :: "directory \<Rightarrow> ProjectDetectionRule \<Rightarrow> string \<Rightarrow> tally \<Rightarrow> io_error + tally" where
  "checkFile d rule file t0 =
     (let t = addCheck t0 in
      if includes_str file ''*'' then
        (case topLevelFiles d of
           Inl _ \<Rightarrow> Inr t
         | Inr fs \<Rightarrow> Inr (if list_ex (fileGlobTest file) fs then addMatch 4 t else t))
      else
        (case existsAt d file of
           Inl e \<Rightarrow> Inl e
         | Inr False \<Rightarrow> Inr t
         | Inr True \<Rightarrow>
             if file = ''package.json'' \<and> rule_name rule = ''React'' then
               (case packageJsonHasReact d of
                  Inl _ \<Rightarrow> Inr (addMatch 3 t)
                | Inr hasReact \<Rightarrow> Inr (if hasReact then addMatch 5 t else t))
             else if rule_name rule = ''C/C++''
                     \<and> file \<in> set [''Makefile'', ''CMakeLists.txt'', ''configure.ac''] then
               (case topLevelFiles d of
                  Inl _ \<Rightarrow> Inr t
                | Inr fs \<Rightarrow> Inr (if list_ex isCppSource fs then addMatch 3 t else t))
             else Inr (addMatch 3 t)))"


fun checkFiles ::
    "directory \<Rightarrow> ProjectDetectionRule \<Rightarrow> string list \<Rightarrow> tally \<Rightarrow> io_error + tally" where
  "checkFiles d rule [] t = Inr t"
| "checkFiles d rule (file # rest) t =
     (case checkFile d rule file t of Inl e \<Rightarrow> Inl e | Inr t' \<Rightarrow> checkFiles d rule rest t')"

fun checkFolders :: "directory \<Rightarrow> string list \<Rightarrow> tally \<Rightarrow> io_error + tally" where
  "checkFolders d [] t = Inr t"
| "checkFolders d (folder # rest) t =
     (case existsAt d folder of
        Inl e \<Rightarrow> Inl e
      | Inr found \<Rightarrow> checkFolders d rest (if found then addMatch 2 (addCheck t) else addCheck t))"

text \<open>
  \<open>collectFiles\<close> gathers the names of the files and (with a trailing \<open>/\<close>) of the
  directories, descending into the conventional source directories. Its first argument
  is the number of levels it may still list, \<open>3 - depth\<close>: the source returns at once
  when \<open>depth > 2\<close>. \<open>collectEntries\<close> is its loop over one listing.
\<close>

fun collectEntries ::
    "(string list \<Rightarrow> string list \<times> string list \<Rightarrow> io_error + string list \<times> string list) \<Rightarrow>
     string list \<Rightarrow> dirEntry list \<Rightarrow> string list \<times> string list \<Rightarrow>
     io_error + string list \<times> string list" where
  "collectEntries descend currentPath [] acc = Inr acc"
| "collectEntries descend currentPath (e # es) (allFiles, allDirs) =
     (if isFile e then collectEntries descend currentPath es (allFiles @ [name e], allDirs)
      else if isDirectory e then
        (if name e \<in> set [''src'', ''lib'', ''app'', ''pages'', ''components'', ''main'']
         then (case descend (currentPath @ [name e]) (allFiles, allDirs @ [name e @ ''/'']) of
                 Inl x \<Rightarrow> Inl x
               | Inr acc' \<Rightarrow> collectEntries descend currentPath es acc')
         else collectEntries descend currentPath es (allFiles, allDirs @ [name e @ ''/'']))
      else collectEntries descend currentPath es (allFiles, allDirs))"

primrec collectFiles ::
    "nat \<Rightarrow> directory \<Rightarrow> string list \<Rightarrow> string list \<times> string list \<Rightarrow>
     io_error + string list \<times> string list" where
  "collectFiles 0 d currentPath acc = Inr acc"
| "collectFiles (Suc levels) d currentPath acc =
     (case readDir d currentPath of
        Inl e \<Rightarrow> Inl e
      | Inr es \<Rightarrow> collectEntries (collectFiles levels d) currentPath es acc)"

definition checkPattern :: "string list \<Rightarrow> string list \<Rightarrow> string \<Rightarrow> tally \<Rightarrow> tally" where
  "checkPattern allFiles allDirs pattern t0 =
     (let t = addCheck t0;
          matchesPattern =
            (if includes_str pattern ''*'' then list_ex (patternGlobTest pattern) allFiles
             else if endsWith pattern ''/'' then list_ex (\<lambda>dir. dir = pattern) allDirs
             else pattern \<in> set allFiles)
      in if matchesPattern then addMatch 1 t else t)"

text \<open>A failure anywhere in the collection is caught and no pattern is checked.\<close>

definition checkPatterns :: "directory \<Rightarrow> ProjectDetectionRule \<Rightarrow> tally \<Rightarrow> tally" where
  "checkPatterns d rule t =
     (if rule_patterns rule \<noteq> [] then
        (case collectFiles 3 d [] ([], []) of
           Inl _ \<Rightarrow> t
         | Inr (allFiles, allDirs) \<Rightarrow> fold (checkPattern allFiles allDirs) (rule_patterns rule) t)
      else t)"

definition scoreRule :: "directory \<Rightarrow> ProjectDetectionRule \<Rightarrow> io_error + tally" where
  "scoreRule d rule =
     (case checkFiles d rule (rule_files rule)
             \<lparr>confidence = 0, matchCount = 0, totalChecks = 0\<rparr> of
        Inl e \<Rightarrow> Inl e
      | Inr t1 \<Rightarrow>
          (case checkFolders d (rule_folders rule) t1 of
             Inl e \<Rightarrow> Inl e
           | Inr t2 \<Rightarrow> Inr (checkPatterns d rule t2)))"

section \<open>Project detection: the detected types\<close>

text \<open>
  JavaScript numbers are IEEE 754 doubles. The weights, counts and priorities are small
  integers and exact; a quotient, a difference and the literal \<open>0.2\<close> are the exact
  value rounded to the nearest double, ties to the even significand. \<open>toDouble\<close> is
  this rounding for the values within the normal exponent range (all values of the
  scan lie between \<open>2 ^ - 60\<close> and \<open>2 ^ 10\<close> in size, or are zero): a double is held as
  the rational number it stands for. \<open>floorLog2 x\<close> is the exponent \<open>e\<close> with
  \<open>2 ^ e \<le> x < 2 ^ (e + 1)\<close>, and a double has 53 significant bits.
\<close>

definition floorLog2 :: "rat \<Rightarrow> int" where
  "floorLog2 x =
     (if 1 \<le> x then int (floorlog 2 (nat \<lfloor>x\<rfloor>)) - 1
      else - int (floorlog 2 (nat (\<lceil>1 / x\<rceil> - 1))))"

definition pow2 :: "int \<Rightarrow> rat" where
  "pow2 e = (if 0 \<le> e then 2 ^ nat e else 1 / 2 ^ nat (- e))"

definition roundHalfEven :: "rat \<Rightarrow> int" where
  "roundHalfEven m =
     (let f = \<lfloor>m\<rfloor>; r = m - of_int f in
      if r < 1 / 2 then f else if 1 / 2 < r then f + 1 else if even f then f else f + 1)"

definition toDouble :: "rat \<Rightarrow> rat" where
  "toDouble x =
     (if x = 0 then 0
      else (let a = \<bar>x\<bar>; ulp = pow2 (floorLog2 a - 52)
            in sgn x * of_int (roundHalfEven (a / ulp)) * ulp))"

text \<open>An entry of \<open>detectedTypes\<close>; the confidence is the double the source computes.\<close>

record detected =
  detected_name :: string
  detected_priority :: int
  detected_confidence :: rat

definition normalizedConfidence :: "ProjectDetectionRule \<Rightarrow> tally \<Rightarrow> rat" where
  "normalizedConfidence rule t =
     (if totalChecks t > 0
      then toDouble
             (of_int (confidence t)
              / of_nat (max (totalChecks t)
                            (length (rule_files rule) + length (rule_folders rule))))
      else 0)"

fun scanRules ::
    "directory \<Rightarrow> ProjectDetectionRule list \<Rightarrow> detected list \<Rightarrow> io_error + detected list" where
  "scanRules d [] detectedTypes = Inr detectedTypes"
| "scanRules d (rule # rest) detectedTypes =
     (case scoreRule d rule of
        Inl e \<Rightarrow> Inl e
      | Inr t \<Rightarrow>
          scanRules d rest
            (if matchCount t > 0 \<and> confidence t \<ge> 2
             then detectedTypes @
                    [\<lparr>detected_name = rule_name rule, detected_priority = priority rule,
                      detected_confidence = normalizedConfidence rule t\<rparr>]
             else detectedTypes))"


text \<open>
  \<open>Array.prototype.sort\<close> sorts in place and is stable. With a comparison function that
  orders the elements consistently the result is the one of a stable insertion sort,
  \<open>sortBy\<close>.
\<close>

fun insertBy :: "('a \<Rightarrow> 'a \<Rightarrow> rat) \<Rightarrow> 'a \<Rightarrow> 'a list \<Rightarrow> 'a list" where
  "insertBy cmp x [] = [x]"
| "insertBy cmp x (y # ys) = (if cmp x y \<le> 0 then x # y # ys else y # insertBy cmp x ys)"

definition sortBy :: "('a \<Rightarrow> 'a \<Rightarrow> rat) \<Rightarrow> 'a list \<Rightarrow> 'a list" where
  "sortBy cmp xs = foldr (insertBy cmp) xs []"

definition compareRules :: "ProjectDetectionRule \<Rightarrow> ProjectDetectionRule \<Rightarrow> rat" where
  "compareRules a b = of_int (priority b - priority a)"

definition compareDetected :: "detected \<Rightarrow> detected \<Rightarrow> rat" where
  "compareDetected a b =
     (if \<bar>toDouble (detected_confidence a - detected_confidence b)\<bar> < toDouble (2 / 10)
      then of_int (detected_priority b - detected_priority a)
      else toDouble (detected_confidence b - detected_confidence a))"

text \<open>
  \<open>detectProjectType\<close> sorts the rule table itself, so the table is part of the state:
  the function takes the table and returns it as the call leaves it, next to the
  result or the error thrown. The comparison function of the second sort does not
  order the detected types consistently (closeness of confidences is not transitive),
  and the order a sort then produces is left to the JavaScript engine: the sort of the
  detected types is the parameter \<open>arraySort\<close>.
\<close>

definition detectProjectType ::
    "((detected \<Rightarrow> detected \<Rightarrow> rat) \<Rightarrow> detected list \<Rightarrow> detected list) \<Rightarrow>
     directory \<Rightarrow> ProjectDetectionRule list \<Rightarrow>
     (io_error + string list) \<times> ProjectDetectionRule list" where
  "detectProjectType arraySort d table =
     (let sortedRules = sortBy compareRules table in
      ((case scanRules d sortedRules [] of
          Inl e \<Rightarrow> Inl e
        | Inr detectedTypes \<Rightarrow>
            Inr (map detected_name (take 3 (arraySort compareDetected detectedTypes)))),
       sortedRules))"

section \<open>The wording of the specification\<close>

text \<open>
  The specification states the recognition gate on the first non-empty line: the line
  is a path marker when it starts with \<open>//\<close> and the path after the marker contains a
  separator, and it may be preceded by a code fence.
\<close>

definition spec_firstNonEmptyLine :: "string \<Rightarrow> string" where
  "spec_firstNonEmptyLine content =
     (case filter (\<lambda>l. l \<noteq> []) (split CHR 0x0A content) of [] \<Rightarrow> [] | l # _ \<Rightarrow> trim l)"

definition spec_pathMarker :: "string \<Rightarrow> bool" where
  "spec_pathMarker l \<longleftrightarrow> startsWith l ''//'' \<and> includes_str (drop 2 l) ''/''"

definition spec_recognized :: "string \<Rightarrow> bool" where
  "spec_recognized content =
     (let l = spec_firstNonEmptyLine content in
      spec_pathMarker l \<or> (startsWith l ''```'' \<and> spec_pathMarker (trim (stripFence l))))"

text \<open>
  The specification classifies a text as a search-and-replace edit when the three
  delimiters occur from left to right: the separator after the search marker, the
  replace marker after the separator.
\<close>

definition indexOfFrom :: "string \<Rightarrow> string \<Rightarrow> nat \<Rightarrow> nat option" where
  "indexOfFrom s pat n = map_option (\<lambda>i. i + n) (indexOf (drop n s) pat)"

definition spec_delimitersInOrder :: "string \<Rightarrow> bool" where
  "spec_delimitersInOrder content =
     (case indexOf content ''------- SEARCH'' of
        None \<Rightarrow> False
      | Some i \<Rightarrow>
          (case indexOfFrom content ''======='' (i + length ''------- SEARCH'') of
             None \<Rightarrow> False
           | Some j \<Rightarrow>
               indexOfFrom content ''+++++++ REPLACE'' (j + length ''======='') \<noteq> None))"

section \<open>Example inputs\<close>

text \<open>
  A world with the given files in their directories and nothing refused, and a monitor
  started on a project directory.
\<close>

definition worldWith :: "(string \<times> string) list \<Rightarrow> world" where
  "worldWith fs =
     \<lparr>fs_files = map_of fs,
      fs_dirs = (\<lambda>q. list_ex (\<lambda>f. q \<in> set (parents (fst f))) fs),
      fs_denied = (\<lambda>_. False), fs_ops = [], console = []\<rparr>"

definition monitorOn :: "string \<Rightarrow> monitor" where
  "monitorOn dir =
     \<lparr>verbose = False, lastClipboardContent = [], baseProjectDirAbs = Some dir\<rparr>"




text \<open>What a project type contributes to one of the three lists.\<close>

definition contributed :: "(DefaultIgnorePattern \<Rightarrow> string list) \<Rightarrow> string \<Rightarrow> string set" where
  "contributed field t =
     (case DEFAULT_IGNORE_PATTERNS t of None \<Rightarrow> {} | Some p \<Rightarrow> set (field p))"

section \<open>Properties of the recognition gate\<close>

lemma marker_includes_slash: "startsWith l ''//'' \<Longrightarrow> includes_str l ''/''"
  by (cases l) (auto simp: startsWith_def includes_str_def)

text \<open>
  Claim C10. The check for a \<open>/\<close> is already met by the marker: whenever the trimmed
  first line starts with \<open>//\<close>, or starts with a fence and its remainder, trimmed, starts
  with \<open>//\<close>, the text is recognised as a file-replacement pattern, whether or not the
  declared path contains a separator. The first line \<open>// README.md\<close> is recognised.
\<close>

theorem marker_alone_is_recognized:
  assumes "startsWith (firstLine content) ''//''
     \<or> (startsWith (firstLine content) ''```''
         \<and> startsWith (trim (stripFence (firstLine content))) ''//'')"
  shows "isFileReplacementPattern content"
  using assms by (auto simp: isFileReplacementPattern_def Let_def marker_includes_slash)

theorem marker_alone_is_recognized_witness:
  "startsWith (firstLine ''// README.md'') ''//''
   \<and> filePath (parseFileContent ''// README.md'') = ''README.md''
   \<and> \<not> includes_str ''README.md'' ''/''
   \<and> isFileReplacementPattern ''// README.md''"
  using marker_alone_is_recognized [of "''// README.md''"]
  by (simp add: firstLine_def firstOf_def trim_def isWhiteSpace_def startsWith_def
      parseFileContent_def includes_str_def stripFence_def Let_def)

text \<open>
  The no-break space is white space to \<open>trim\<close>: a first line that begins with it and
  goes on with the marker is recognised.
\<close>

lemma no_break_space_is_trimmed:
  "isFileReplacementPattern (CHR 0xA0 # ''// a.ts\<newline>x'')
   \<and> fs_ops (snd (checkClipboard ''/home'' (Inr (CHR 0xA0 # ''// a.ts\<newline>x''))
                    (monitorOn ''/proj'', worldWith [])))
       = [Mkdir ''/proj'', WriteTextFile ''/proj/a.ts'' ''x'']"
  by code_simp

text \<open>
  Claim C5, as the code has it. The gate reads the first line of the text, trimmed: when
  that line neither starts with \<open>//\<close> nor is a fence whose remainder, trimmed, starts
  with \<open>//\<close>, the text is not recognised and the tick leaves the world as it was: no
  file operation, no output.
\<close>

theorem unrecognized_text_is_ignored:
  assumes "\<not> (startsWith (firstLine content) ''//''
     \<or> (startsWith (firstLine content) ''```''
         \<and> startsWith (trim (stripFence (firstLine content))) ''//''))"
  shows "\<not> isFileReplacementPattern content
         \<and> snd (checkClipboard cwd (Inr content) (m, w)) = w"
proof -
  have "\<not> isFileReplacementPattern content"
    using assms by (auto simp: isFileReplacementPattern_def Let_def)
  then show ?thesis by (simp add: checkClipboard_def Let_def)
qed

theorem unrecognized_text_is_ignored_witness:
  "\<not> (startsWith (firstLine ''hello // a/b.ts'') ''//''
      \<or> (startsWith (firstLine ''hello // a/b.ts'') ''```''
          \<and> startsWith (trim (stripFence (firstLine ''hello // a/b.ts''))) ''//''))
   \<and> \<not> isFileReplacementPattern ''hello // a/b.ts''
   \<and> snd (checkClipboard ''/home'' (Inr ''hello // a/b.ts'') (monitorOn ''/proj'', worldWith []))
       = worldWith []"
proof -
  have h: "\<not> (startsWith (firstLine ''hello // a/b.ts'') ''//''
      \<or> (startsWith (firstLine ''hello // a/b.ts'') ''```''
          \<and> startsWith (trim (stripFence (firstLine ''hello // a/b.ts''))) ''//''))"
    by (simp add: firstLine_def firstOf_def trim_def isWhiteSpace_def startsWith_def)
  show ?thesis
    using h unrecognized_text_is_ignored [OF h, of "''/home''" "monitorOn ''/proj''" "worldWith []"]
    by simp
qed

text \<open>
  Claim C5, as the specification words it, fails twice. The first non-empty line of the
  first text below is \<open>// README.md\<close>, whose path has no separator, so it has neither
  of the two shapes; yet the text is recognised and the file is written. The second
  and the third text have the same first non-empty line, \<open>// src/a.ts\<close>, which has the
  first shape; the one that begins with it is recognised, the one that begins with an
  empty line is not, and the tick does nothing with it: the gate reads the first line,
  not the first non-empty line.
\<close>

theorem recognition_gate_counterexample:
  "\<not> spec_recognized ''// README.md\<newline>hello''
   \<and> isFileReplacementPattern ''// README.md\<newline>hello''
   \<and> fs_ops (snd (checkClipboard ''/home'' (Inr ''// README.md\<newline>hello'')
                    (monitorOn ''/proj'', worldWith [])))
       = [Mkdir ''/proj'', WriteTextFile ''/proj/README.md'' ''hello'']
   \<and> spec_firstNonEmptyLine ''\<newline>// src/a.ts\<newline>x'' = ''// src/a.ts''
   \<and> spec_firstNonEmptyLine ''// src/a.ts\<newline>x'' = ''// src/a.ts''
   \<and> spec_recognized ''\<newline>// src/a.ts\<newline>x''
   \<and> isFileReplacementPattern ''// src/a.ts\<newline>x''
   \<and> \<not> isFileReplacementPattern ''\<newline>// src/a.ts\<newline>x''
   \<and> fs_ops (snd (checkClipboard ''/home'' (Inr ''\<newline>// src/a.ts\<newline>x'')
                    (monitorOn ''/proj'', worldWith [])))
       = []"
  by code_simp

section \<open>Properties of search-and-replace\<close>

text \<open>
  Claim C3. When the three delimiters occur in the text, the search marker first at \<open>i\<close>
  and the separator first at \<open>j\<close>, and the text cut out between them trims to the empty
  string, \<open>processSearchReplace\<close> reports the empty search pattern and stops: no file is
  read, no file is written. The same holds for the whole handling of the clipboard
  text, which then touches no file either.
\<close>

theorem empty_search_is_rejected:
  assumes "indexOf content ''------- SEARCH'' = Some i"
    and "indexOf content ''======='' = Some j"
    and "includes_str content ''+++++++ REPLACE''"
    and "trim (substring content (i + length ''------- SEARCH'') j) = []"
  shows "processSearchReplace m path content w
           = consoleLog EmptySearchPattern (consoleLog (ProcessingSearchReplace path) w)
     \<and> fs_ops (processSearchReplace m path content w) = fs_ops w
     \<and> fs_files (processSearchReplace m path content w) = fs_files w
     \<and> fs_ops (processClipboardContent cwd m content w) = fs_ops w
     \<and> fs_files (processClipboardContent cwd m content w) = fs_files w"
proof -
  have r: "processSearchReplace m p content w
           = consoleLog EmptySearchPattern (consoleLog (ProcessingSearchReplace p) w)" for p
    using assms by (auto simp: processSearchReplace_def includes_str_def Let_def)
  have sr: "isSearchReplacePattern content"
    using assms by (simp add: isSearchReplacePattern_def includes_str_def)
  have "fs_ops (processClipboardContent cwd m content w) = fs_ops w"
    and "fs_files (processClipboardContent cwd m content w) = fs_files w"
    using sr by (auto simp: processClipboardContent_def Let_def r consoleLog_def
        split: option.splits)
  then show ?thesis by (simp add: r consoleLog_def)
qed

theorem empty_search_is_rejected_witness:
  "indexOf ''// a.ts\<newline>------- SEARCH\<newline>=======\<newline>foo\<newline>+++++++ REPLACE''
      ''------- SEARCH'' = Some 8
   \<and> indexOf ''// a.ts\<newline>------- SEARCH\<newline>=======\<newline>foo\<newline>+++++++ REPLACE''
      ''======='' = Some 23
   \<and> includes_str ''// a.ts\<newline>------- SEARCH\<newline>=======\<newline>foo\<newline>+++++++ REPLACE''
      ''+++++++ REPLACE''
   \<and> trim (substring ''// a.ts\<newline>------- SEARCH\<newline>=======\<newline>foo\<newline>+++++++ REPLACE''
      (8 + length ''------- SEARCH'') 23) = []
   \<and> console (processSearchReplace (monitorOn ''/proj'') ''/proj/a.ts''
        ''// a.ts\<newline>------- SEARCH\<newline>=======\<newline>foo\<newline>+++++++ REPLACE''
        (worldWith [(''/proj/a.ts'', ''foo'')]))
      = [ProcessingSearchReplace ''/proj/a.ts'', EmptySearchPattern]
   \<and> fs_ops (processClipboardContent ''/home'' (monitorOn ''/proj'')
        ''// a.ts\<newline>------- SEARCH\<newline>=======\<newline>foo\<newline>+++++++ REPLACE''
        (worldWith [(''/proj/a.ts'', ''foo'')])) = []"
proof -
  let ?T = "''// a.ts\<newline>------- SEARCH\<newline>=======\<newline>foo\<newline>+++++++ REPLACE''"
  have h1: "indexOf ?T ''------- SEARCH'' = Some 8" by code_simp
  have h2: "indexOf ?T ''======='' = Some 23" by code_simp
  have h3: "includes_str ?T ''+++++++ REPLACE''" by code_simp
  have h4: "trim (substring ?T (8 + length ''------- SEARCH'') 23) = []" by code_simp
  show ?thesis
    using h1 h2 h3 h4
      empty_search_is_rejected [OF h1 h2 h3 h4, of "monitorOn ''/proj''" "''/proj/a.ts''"
        "worldWith [(''/proj/a.ts'', ''foo'')]" "''/home''"]
    by (simp add: consoleLog_def worldWith_def)
qed

text \<open>
  Claim C4, as the code has it. A recognised text with a safe path is handled as a
  search-and-replace edit exactly when each of the three delimiters occurs somewhere
  in it, in whatever order, and as a whole-file replacement otherwise.
\<close>

theorem dispatch_ignores_delimiter_order:
  assumes "filePath (parseFileContent content) \<noteq> []"
    and "baseProjectDirAbs m = Some base" and "base \<noteq> []"
    and "isPathSafe cwd base (resolveTarget cwd base (filePath (parseFileContent content)))"
  shows "processClipboardContent cwd m content w =
     (if includes_str content ''------- SEARCH'' \<and> includes_str content ''=======''
         \<and> includes_str content ''+++++++ REPLACE''
      then processSearchReplace m
             (resolveTarget cwd base (filePath (parseFileContent content))) content w
      else processCompleteFileReplacement m
             (resolveTarget cwd base (filePath (parseFileContent content)))
             (fileContent (parseFileContent content)) w)"
  using assms by (simp add: processClipboardContent_def Let_def isSearchReplacePattern_def)

theorem dispatch_ignores_delimiter_order_witness:
  "filePath (parseFileContent ''// a.ts\<newline>+++++++ REPLACE\<newline>=======\<newline>------- SEARCH'')
     = ''a.ts''
   \<and> resolveTarget ''/home'' ''/proj'' ''a.ts'' = ''/proj/a.ts''
   \<and> isPathSafe ''/home'' ''/proj'' ''/proj/a.ts''
   \<and> processClipboardContent ''/home'' (monitorOn ''/proj'')
        ''// a.ts\<newline>+++++++ REPLACE\<newline>=======\<newline>------- SEARCH'' (worldWith [])
     = processSearchReplace (monitorOn ''/proj'') ''/proj/a.ts''
        ''// a.ts\<newline>+++++++ REPLACE\<newline>=======\<newline>------- SEARCH'' (worldWith [])"
proof -
  let ?T = "''// a.ts\<newline>+++++++ REPLACE\<newline>=======\<newline>------- SEARCH''"
  have p: "filePath (parseFileContent ?T) = ''a.ts''" by code_simp
  have t: "resolveTarget ''/home'' ''/proj'' ''a.ts'' = ''/proj/a.ts''" by code_simp
  have s: "isPathSafe ''/home'' ''/proj'' ''/proj/a.ts''" by code_simp
  have i: "includes_str ?T ''------- SEARCH''" "includes_str ?T ''=======''"
    "includes_str ?T ''+++++++ REPLACE''" by code_simp+
  have h1: "filePath (parseFileContent ?T) \<noteq> []" by (simp add: p)
  have h2: "baseProjectDirAbs (monitorOn ''/proj'') = Some ''/proj''"
    by (simp add: monitorOn_def)
  have h3: "''/proj'' \<noteq> []" by simp
  have h4: "isPathSafe ''/home'' ''/proj''
              (resolveTarget ''/home'' ''/proj'' (filePath (parseFileContent ?T)))"
    by (simp add: p t s)
  show ?thesis
    using dispatch_ignores_delimiter_order [OF h1 h2 h3 h4, of "worldWith []"] p t s i
    by simp
qed

text \<open>
  Claim C4, as the specification words it, fails: the text below is recognised and
  holds the three delimiters in the reverse order, and it is handled as a
  search-and-replace edit (the target file is read), not as a whole-file replacement.
\<close>

theorem unordered_delimiters_counterexample:
  "isFileReplacementPattern
     ''// a.ts\<newline>+++++++ REPLACE\<newline>x\<newline>=======\<newline>y\<newline>------- SEARCH''
   \<and> isSearchReplacePattern
     ''// a.ts\<newline>+++++++ REPLACE\<newline>x\<newline>=======\<newline>y\<newline>------- SEARCH''
   \<and> \<not> spec_delimitersInOrder
     ''// a.ts\<newline>+++++++ REPLACE\<newline>x\<newline>=======\<newline>y\<newline>------- SEARCH''
   \<and> console (snd (checkClipboard ''/home''
        (Inr ''// a.ts\<newline>+++++++ REPLACE\<newline>x\<newline>=======\<newline>y\<newline>------- SEARCH'')
        (monitorOn ''/proj'', worldWith [])))
      = [ProcessingSearchReplace ''/proj/a.ts'', CouldNotReadWrite ''/proj/a.ts'' NotFound]
   \<and> fs_ops (snd (checkClipboard ''/home''
        (Inr ''// a.ts\<newline>+++++++ REPLACE\<newline>x\<newline>=======\<newline>y\<newline>------- SEARCH'')
        (monitorOn ''/proj'', worldWith [])))
      = [ReadTextFile ''/proj/a.ts'']"
  by code_simp

subsection \<open>Applying the replacement\<close>

lemma getSubstitution_plain:
  "CHR ''$'' \<notin> set rep \<Longrightarrow> getSubstitution mt pre post rep = rep"
  by (induction rep) auto

lemma replace_plain:
  assumes "CHR ''$'' \<notin> set rep" and "indexOf s pat = Some i"
  shows "replace s pat rep = take i s @ rep @ drop (i + length pat) s"
  using assms by (simp add: replace_def getSubstitution_plain)

text \<open>\<open>indexOf\<close> finds the first occurrence.\<close>

lemma indexOf_first:
  "indexOf s pat = Some i \<Longrightarrow>
     prefix pat (drop i s) \<and> i \<le> length s \<and> (\<forall>k<i. \<not> prefix pat (drop k s))"
proof (induction s arbitrary: i)
  case Nil
  then show ?case by (auto split: if_splits)
next
  case (Cons c s)
  show ?case
  proof (cases "prefix pat (c # s)")
    case True
    with Cons.prems show ?thesis by simp
  next
    case False
    with Cons.prems obtain j where j: "indexOf s pat = Some j" "i = Suc j" by auto
    from Cons.IH[OF j(1)] False j(2) show ?thesis
      by (auto simp: less_Suc_eq_0_disj)
  qed
qed

text \<open>
  With a replacement text free of \<open>$\<close>, the first occurrence of the search text in a
  file that can be read and written (not refused, in existing directories) is replaced
  by the replacement text, and the rest of the file is kept.
\<close>

lemma search_replace_plain:
  assumes "indexOf content ''------- SEARCH'' = Some a"
    and "indexOf content ''======='' = Some b"
    and "indexOf content ''+++++++ REPLACE'' = Some c"
    and "trim (substring content (a + length ''------- SEARCH'') b) = search"
    and "trim (substring content (b + length ''======='') c) = rep"
    and "search \<noteq> []" and "CHR ''$'' \<notin> set rep"
    and "\<not> fs_denied w path" and "fs_files w path = Some original"
    and "\<not> isDir w path" and "\<not> fileAbove w path"
    and "\<not> list_ex (\<lambda>q. \<not> isDir w q) (parents path)"
    and "indexOf original search = Some i"
  shows "fs_files (processSearchReplace m path content w)
         = (fs_files w)(path \<mapsto> take i original @ rep @ drop (i + length search) original)"
  using assms
  by (auto simp: processSearchReplace_def Let_def readTextFile_def writeTextFile_def
      consoleLog_def includes_str_def replace_plain isDir_def fileAbove_def)

text \<open>When the file does not contain the search text, it is reported and no file changes.\<close>

lemma search_not_found:
  assumes "indexOf content ''------- SEARCH'' = Some a"
    and "indexOf content ''======='' = Some b"
    and "indexOf content ''+++++++ REPLACE'' = Some c"
    and "trim (substring content (a + length ''------- SEARCH'') b) = search"
    and "search \<noteq> []"
    and "\<not> fs_denied w path" and "fs_files w path = Some original"
    and "\<not> includes_str original search"
  shows "fs_files (processSearchReplace m path content w) = fs_files w
     \<and> fs_ops (processSearchReplace m path content w) = fs_ops w @ [ReadTextFile path]
     \<and> SearchPatternNotFound path \<in> set (console (processSearchReplace m path content w))"
  using assms
  by (auto simp: processSearchReplace_def Let_def readTextFile_def consoleLog_def)

lemma first_occurrence_example:
  "fs_files (processSearchReplace (monitorOn ''/proj'') ''/proj/a.ts''
      ''// a.ts\<newline>------- SEARCH\<newline>x=1\<newline>=======\<newline>x=2\<newline>+++++++ REPLACE''
      (worldWith [(''/proj/a.ts'', ''x=1\<newline>x=1\<newline>'')])) ''/proj/a.ts''
   = Some ''x=2\<newline>x=1\<newline>''"
  by code_simp

text \<open>
  Claim C2 at the input where the code departs from it. The file holds \<open>echo pid\<close>, the
  search text is \<open>echo pid\<close> and the replacement text is \<open>echo $$\<close>. The search text is
  found, but what is written is \<open>echo $\<close>: \<open>String.prototype.replace\<close> reads the
  replacement text as a template, in which \<open>$$\<close> stands for one dollar sign.
\<close>

theorem dollar_in_replacement_is_expanded:
  "indexOf
      ''// run.sh\<newline>------- SEARCH\<newline>echo pid\<newline>=======\<newline>echo $$\<newline>+++++++ REPLACE''
      ''======='' = Some 34
   \<and> indexOf
      ''// run.sh\<newline>------- SEARCH\<newline>echo pid\<newline>=======\<newline>echo $$\<newline>+++++++ REPLACE''
      ''+++++++ REPLACE'' = Some 50
   \<and> trim (substring
      ''// run.sh\<newline>------- SEARCH\<newline>echo pid\<newline>=======\<newline>echo $$\<newline>+++++++ REPLACE''
      (34 + length ''======='') 50) = ''echo $$''
   \<and> includes_str ''echo pid\<newline>'' ''echo pid''
   \<and> fs_files (processSearchReplace (monitorOn ''/proj'') ''/proj/run.sh''
      ''// run.sh\<newline>------- SEARCH\<newline>echo pid\<newline>=======\<newline>echo $$\<newline>+++++++ REPLACE''
      (worldWith [(''/proj/run.sh'', ''echo pid\<newline>'')])) ''/proj/run.sh''
   = Some ''echo $\<newline>''"
  by code_simp

section \<open>Properties of path safety\<close>

text \<open>The examples of the specification, for the project root \<open>/proj\<close>.\<close>

lemma path_safety_examples:
  "\<not> isPathSafe ''/home'' ''/proj'' (resolveTarget ''/home'' ''/proj'' ''../etc/passwd'')"
  "resolveTarget ''/home'' ''/proj'' ''src/a.ts'' = ''/proj/src/a.ts''"
  "isPathSafe ''/home'' ''/proj'' (resolveTarget ''/home'' ''/proj'' ''src/a.ts'')"
  "resolveTarget ''/home'' ''/proj'' ''/proj/sub/b.ts'' = ''/proj/sub/b.ts''"
  "isPathSafe ''/home'' ''/proj'' (resolveTarget ''/home'' ''/proj'' ''/proj/sub/b.ts'')"
  "\<not> isPathSafe ''/home'' ''/proj'' (resolveTarget ''/home'' ''/proj'' ''.'')"
  by code_simp+

text \<open>A rejected path is reported and nothing else happens: no file operation.\<close>

lemma blocked_path_no_access:
  assumes "filePath (parseFileContent content) \<noteq> []"
    and "baseProjectDirAbs m = Some base" and "base \<noteq> []"
    and "\<not> isPathSafe cwd base (resolveTarget cwd base (filePath (parseFileContent content)))"
  shows "processClipboardContent cwd m content w
         = consoleLog (BlockedWriteAttempt base
             (resolveTarget cwd base (filePath (parseFileContent content)))) w"
  using assms by (simp add: processClipboardContent_def Let_def)

text \<open>
  Claim C1 at the input where the code departs from it. The declared path
  \<open>..cache/a.ts\<close> resolves to \<open>/proj/..cache/a.ts\<close>, inside the root \<open>/proj\<close>; the
  relative path from the root is \<open>..cache/a.ts\<close>, which is not empty, not absolute and
  whose first segment is the directory name \<open>..cache\<close>, not the parent directory. The
  code tests the first two characters, so it rejects the path and reports a write
  outside of the project directory.
\<close>

theorem dotdot_name_is_blocked:
  "resolveTarget ''/home'' ''/proj'' ''..cache/a.ts'' = ''/proj/..cache/a.ts''
   \<and> relative ''/home'' ''/proj'' ''/proj/..cache/a.ts'' = ''..cache/a.ts''
   \<and> \<not> isPathSafe ''/home'' ''/proj'' ''/proj/..cache/a.ts''
   \<and> filePath (parseFileContent ''// ..cache/a.ts\<newline>x'') = ''..cache/a.ts''
   \<and> console (processClipboardContent ''/home'' (monitorOn ''/proj'')
         ''// ..cache/a.ts\<newline>x'' (worldWith []))
       = [BlockedWriteAttempt ''/proj'' ''/proj/..cache/a.ts'']
   \<and> fs_ops (processClipboardContent ''/home'' (monitorOn ''/proj'')
         ''// ..cache/a.ts\<newline>x'' (worldWith [])) = []"
  by code_simp

section \<open>Properties of the ignore patterns\<close>

lemma set_setInsertAll: "set (setInsertAll seen xs) = set seen \<union> set xs"
  by (induction xs arbitrary: seen) auto

lemma distinct_setInsertAll: "distinct seen \<Longrightarrow> distinct (setInsertAll seen xs)"
  by (induction xs arbitrary: seen) auto

lemma set_uniq: "set (uniq xs) = set xs"
  by (simp add: uniq_def set_setInsertAll)

lemma distinct_uniq: "distinct (uniq xs)"
  by (simp add: uniq_def distinct_setInsertAll)

lemma mergeTypes_sets:
  "set (files (mergeTypes ts c)) = set (files c) \<union> (\<Union>t\<in>set ts. contributed files t)
   \<and> set (folders (mergeTypes ts c))
       = set (folders c) \<union> (\<Union>t\<in>set ts. contributed folders t)
   \<and> set (extensions (mergeTypes ts c))
       = set (extensions c) \<union> (\<Union>t\<in>set ts. contributed extensions t)"
  by (induction ts arbitrary: c) (auto simp: contributed_def split: option.splits)

text \<open>The result is the union of the common patterns with what each type contributes.\<close>

lemma getDefaultIgnorePatterns_sets:
  "set (files (getDefaultIgnorePatterns ts))
     = set (files COMMON_IGNORE_PATTERNS) \<union> (\<Union>t\<in>set ts. contributed files t)"
  "set (folders (getDefaultIgnorePatterns ts))
     = set (folders COMMON_IGNORE_PATTERNS) \<union> (\<Union>t\<in>set ts. contributed folders t)"
  "set (extensions (getDefaultIgnorePatterns ts))
     = set (extensions COMMON_IGNORE_PATTERNS) \<union> (\<Union>t\<in>set ts. contributed extensions t)"
  by (simp_all add: getDefaultIgnorePatterns_def Let_def set_uniq mergeTypes_sets)

lemma getDefaultIgnorePatterns_distinct:
  "distinct (files (getDefaultIgnorePatterns ts))"
  "distinct (folders (getDefaultIgnorePatterns ts))"
  "distinct (extensions (getDefaultIgnorePatterns ts))"
  by (simp_all add: getDefaultIgnorePatterns_def Let_def distinct_uniq)

lemma set_mergeArrays:
  "set (mergeArrays ov ds) = (case ov of None \<Rightarrow> set ds | Some ex \<Rightarrow> set ex \<union> set ds)"
  by (auto simp: mergeArrays_def set_uniq split: option.splits)

lemma distinct_mergeArrays: "distinct ds \<Longrightarrow> distinct (mergeArrays ov ds)"
  by (auto simp: mergeArrays_def distinct_uniq split: option.splits)

text \<open>
  Claim C7. For two lists of detected types that are permutations of each other, the
  three lists of \<open>getDefaultIgnorePatterns\<close> hold the same elements and have no
  duplicates; and so do the lists that the configuration loader makes of them by
  merging in the user's lists \<open>ovf\<close>, \<open>ovd\<close> and \<open>ove\<close>, whatever these are.
\<close>

theorem ignore_set_independent_of_order:
  assumes "mset ts = mset ts'"
  shows "set (files (getDefaultIgnorePatterns ts)) = set (files (getDefaultIgnorePatterns ts'))
     \<and> set (folders (getDefaultIgnorePatterns ts))
         = set (folders (getDefaultIgnorePatterns ts'))
     \<and> set (extensions (getDefaultIgnorePatterns ts))
         = set (extensions (getDefaultIgnorePatterns ts'))
     \<and> distinct (files (getDefaultIgnorePatterns ts))
     \<and> distinct (folders (getDefaultIgnorePatterns ts))
     \<and> distinct (extensions (getDefaultIgnorePatterns ts))
     \<and> set (mergeArrays ovf (files (getDefaultIgnorePatterns ts)))
         = set (mergeArrays ovf (files (getDefaultIgnorePatterns ts')))
     \<and> set (mergeArrays ovd (folders (getDefaultIgnorePatterns ts)))
         = set (mergeArrays ovd (folders (getDefaultIgnorePatterns ts')))
     \<and> set (mergeArrays ove (extensions (getDefaultIgnorePatterns ts)))
         = set (mergeArrays ove (extensions (getDefaultIgnorePatterns ts')))
     \<and> distinct (mergeArrays ovf (files (getDefaultIgnorePatterns ts)))
     \<and> distinct (mergeArrays ovd (folders (getDefaultIgnorePatterns ts)))
     \<and> distinct (mergeArrays ove (extensions (getDefaultIgnorePatterns ts)))"
proof -
  have "set ts = set ts'" using assms by (rule mset_eq_setD)
  then have f: "set (files (getDefaultIgnorePatterns ts))
                = set (files (getDefaultIgnorePatterns ts'))"
    and d: "set (folders (getDefaultIgnorePatterns ts))
            = set (folders (getDefaultIgnorePatterns ts'))"
    and e: "set (extensions (getDefaultIgnorePatterns ts))
            = set (extensions (getDefaultIgnorePatterns ts'))"
    by (simp_all add: getDefaultIgnorePatterns_sets)
  show ?thesis
    by (simp add: f d e getDefaultIgnorePatterns_distinct set_mergeArrays
        distinct_mergeArrays split: option.split)
qed

theorem ignore_set_independent_of_order_witness:
  "mset [''Go'', ''Rust''] = mset [''Rust'', ''Go'']
   \<and> files (getDefaultIgnorePatterns [''Go'', ''Rust''])
       \<noteq> files (getDefaultIgnorePatterns [''Rust'', ''Go''])
   \<and> set (files (getDefaultIgnorePatterns [''Go'', ''Rust'']))
       = set (files (getDefaultIgnorePatterns [''Rust'', ''Go'']))
   \<and> set (mergeArrays (Some [''go.sum'', ''notes.txt''])
              (files (getDefaultIgnorePatterns [''Go'', ''Rust''])))
       = set (mergeArrays (Some [''go.sum'', ''notes.txt''])
              (files (getDefaultIgnorePatterns [''Rust'', ''Go''])))
   \<and> distinct (mergeArrays (Some [''go.sum'', ''notes.txt''])
         (files (getDefaultIgnorePatterns [''Go'', ''Rust''])))"
proof -
  have h: "mset [''Go'', ''Rust''] = mset [''Rust'', ''Go'']" by simp
  have n: "files (getDefaultIgnorePatterns [''Go'', ''Rust''])
           \<noteq> files (getDefaultIgnorePatterns [''Rust'', ''Go''])" by code_simp
  show ?thesis
    using h n ignore_set_independent_of_order [OF h, of "Some [''go.sum'', ''notes.txt'']"]
    by simp
qed

section \<open>Properties of project detection\<close>

subsection \<open>The rule table\<close>

lemma table_after_detection:
  "snd (detectProjectType arraySort d table) = sortBy compareRules table"
  by (simp add: detectProjectType_def Let_def)

lemma sorted_rule_names:
  "map rule_name (sortBy compareRules PROJECT_DETECTION_RULES) =
     [''Next.js'', ''Deno'', ''Vue.js'', ''React'', ''Node.js'', ''ESP-IDF'', ''Python'',
      ''Rust'', ''Go'', ''Arduino'', ''Java'', ''C#/.NET'', ''Swift'', ''Kotlin'', ''C/C++'',
      ''PHP'', ''Ruby'']"
  by code_simp

lemma declared_rule_names:
  "map rule_name PROJECT_DETECTION_RULES =
     [''Next.js'', ''Vue.js'', ''React'', ''Deno'', ''Node.js'', ''Python'', ''Rust'', ''Go'',
      ''Arduino'', ''ESP-IDF'', ''C/C++'', ''Java'', ''C#/.NET'', ''PHP'', ''Ruby'', ''Swift'',
      ''Kotlin'']"
  by code_simp

lemma mset_insertBy: "mset (insertBy cmp x ys) = add_mset x (mset ys)"
  by (induction ys) auto

lemma mset_sortBy: "mset (sortBy cmp xs) = mset xs"
  by (induction xs) (auto simp: sortBy_def mset_insertBy)

text \<open>
  Claim C8 at the input where the code departs from it: any directory, on the first
  call. \<open>detectProjectType\<close> sorts the table in place, so after the call the table
  lists its rules by descending priority, which is not the order of its declaration.
\<close>

theorem detection_reorders_rule_table:
  "map rule_name (snd (detectProjectType arraySort d PROJECT_DETECTION_RULES)) =
     [''Next.js'', ''Deno'', ''Vue.js'', ''React'', ''Node.js'', ''ESP-IDF'', ''Python'',
      ''Rust'', ''Go'', ''Arduino'', ''Java'', ''C#/.NET'', ''Swift'', ''Kotlin'', ''C/C++'',
      ''PHP'', ''Ruby'']
   \<and> snd (detectProjectType arraySort d PROJECT_DETECTION_RULES) \<noteq> PROJECT_DETECTION_RULES
   \<and> mset (snd (detectProjectType arraySort d PROJECT_DETECTION_RULES))
       = mset PROJECT_DETECTION_RULES"
proof -
  have a: "map rule_name (snd (detectProjectType arraySort d PROJECT_DETECTION_RULES)) =
     [''Next.js'', ''Deno'', ''Vue.js'', ''React'', ''Node.js'', ''ESP-IDF'', ''Python'',
      ''Rust'', ''Go'', ''Arduino'', ''Java'', ''C#/.NET'', ''Swift'', ''Kotlin'', ''C/C++'',
      ''PHP'', ''Ruby'']"
    by (simp only: table_after_detection sorted_rule_names)
  have "map rule_name (snd (detectProjectType arraySort d PROJECT_DETECTION_RULES))
        \<noteq> map rule_name PROJECT_DETECTION_RULES"
    unfolding a declared_rule_names by simp
  then have b: "snd (detectProjectType arraySort d PROJECT_DETECTION_RULES)
                \<noteq> PROJECT_DETECTION_RULES"
    by (rule contrapos_nn) simp
  have c: "mset (snd (detectProjectType arraySort d PROJECT_DETECTION_RULES))
           = mset PROJECT_DETECTION_RULES"
    by (simp only: table_after_detection mset_sortBy)
  from a b c show ?thesis by (intro conjI)
qed

subsection \<open>Build files of the C/C++ rule\<close>































subsection \<open>Failures during the scan\<close>















end
